theory Spec2Isabelle
  imports Main
begin

section \<open>Text, bytes and errors\<close>

text \<open>
  Python text (\<open>str\<close>) is modelled as \<^typ>\<open>string\<close>: a list of code points, each below
  256 (the Latin-1 range, which contains every header token).  Byte strings (\<open>bytes\<close>)
  are lists of octets and are written with the same list type.  The functions below
  follow \<open>str.lower\<close>, \<open>bytes.lower\<close>, \<open>str.encode('utf8')\<close>, \<open>bytes.decode('utf8')\<close> and the
  operator \<open>in\<close> on this range.  The errors are Python's exceptions; \<open>BeyondLatin1\<close> is
  not one of them: it marks a byte string that Python decodes to text with a code point
  from 256 on, which this range does not hold.
\<close>

type_synonym bytes = string

datatype error =
    KeyError | IndexError | TypeError | ValueError | AssertionError | NameError
  | AttributeError | UnicodeDecodeError | BeyondLatin1

definition lower_char :: "char \<Rightarrow> char" where
  "lower_char c =
     (let n = (of_char c :: nat)
      in if (65 \<le> n \<and> n \<le> 90) \<or> (192 \<le> n \<and> n \<le> 214) \<or> (216 \<le> n \<and> n \<le> 222)
         then char_of (n + 32) else c)"

definition lower :: "string \<Rightarrow> string" where
  "lower s = map lower_char s"

definition encode_char :: "char \<Rightarrow> bytes" where
  "encode_char c =
     (let n = (of_char c :: nat)
      in if n < 128 then [c] else [char_of (192 + n div 64), char_of (128 + n mod 64)])"

definition encode_utf8 :: "string \<Rightarrow> bytes" where
  "encode_utf8 s = concat (map encode_char s)"

fun startswith :: "string \<Rightarrow> string \<Rightarrow> bool" where
  "startswith s [] = True"
| "startswith [] (p # ps) = False"
| "startswith (c # cs) (p # ps) = (c = p \<and> startswith cs ps)"

text \<open>\<open>needle in hay\<close> on text: \<open>needle\<close> occurs as a contiguous run of \<open>hay\<close>.\<close>

fun str_contains :: "string \<Rightarrow> string \<Rightarrow> bool" where
  "str_contains [] needle = (needle = [])"
| "str_contains (c # cs) needle = (startswith (c # cs) needle \<or> str_contains cs needle)"

definition CRLF :: bytes where
  "CRLF = [CHR 0x0D, CHR 0x0A]"

text \<open>\<open>sep.join(parts)\<close>.\<close>

fun join :: "'a list \<Rightarrow> 'a list list \<Rightarrow> 'a list" where
  "join sep [] = []"
| "join sep [x] = x"
| "join sep (x # y # ys) = x @ sep @ join sep (y # ys)"

text \<open>A raised error ends the computation; a returned value is passed on.\<close>

definition bind :: "error + 'a \<Rightarrow> ('a \<Rightarrow> error + 'b) \<Rightarrow> error + 'b" where
  "bind r f = (case r of Inl e \<Rightarrow> Inl e | Inr x \<Rightarrow> f x)"

section \<open>Values\<close>

text \<open>
  The header block takes names and values of any type.  A value is text, a byte string,
  or an object of another type, for which an integer stands.
\<close>

datatype pyval = Str string | Bytes bytes | Other int

definition bytes_lower_char :: "char \<Rightarrow> char" where
  "bytes_lower_char c =
     (let n = (of_char c :: nat) in if 65 \<le> n \<and> n \<le> 90 then char_of (n + 32) else c)"

definition bytes_lower :: "bytes \<Rightarrow> bytes" where
  "bytes_lower b = map bytes_lower_char b"

text \<open>\<open>key.lower()\<close>: text and byte strings have the method, an integer has not.\<close>

fun lower_method :: "pyval \<Rightarrow> error + pyval" where
  "lower_method (Str s) = Inr (Str (lower s))"
| "lower_method (Bytes b) = Inr (Bytes (bytes_lower b))"
| "lower_method (Other n) = Inl AttributeError"

text \<open>
  \<open>bytes.decode('utf8')\<close>, strict: one to four octets per code point, no overlong form,
  no surrogate, nothing above U+10FFFF.  The first ill-formed sequence raises
  \<open>UnicodeDecodeError\<close>; a well-formed byte string with a code point from 256 on gives
  \<open>BeyondLatin1\<close>.
\<close>

definition is_cont :: "char \<Rightarrow> bool" where
  "is_cont c = (128 \<le> (of_char c :: nat) \<and> (of_char c :: nat) \<le> 191)"

definition second_of_three :: "nat \<Rightarrow> char \<Rightarrow> bool" where
  "second_of_three n c =
     (let m = (of_char c :: nat)
      in if n = 224 then 160 \<le> m \<and> m \<le> 191
         else if n = 237 then 128 \<le> m \<and> m \<le> 159
         else is_cont c)"

definition second_of_four :: "nat \<Rightarrow> char \<Rightarrow> bool" where
  "second_of_four n c =
     (let m = (of_char c :: nat)
      in if n = 240 then 144 \<le> m \<and> m \<le> 191
         else if n = 244 then 128 \<le> m \<and> m \<le> 143
         else is_cont c)"

definition push :: "char \<Rightarrow> error + string \<Rightarrow> error + string" where
  "push c r = (case r of Inl e \<Rightarrow> Inl e | Inr s \<Rightarrow> Inr (c # s))"

definition wide :: "error + string \<Rightarrow> error + string" where
  "wide r = (case r of Inl UnicodeDecodeError \<Rightarrow> Inl UnicodeDecodeError | _ \<Rightarrow> Inl BeyondLatin1)"

fun decode_utf8 :: "bytes \<Rightarrow> error + string" where
  "decode_utf8 [] = Inr []"
| "decode_utf8 (b # bs) =
     (let n = (of_char b :: nat) in
      if n < 128 then push b (decode_utf8 bs)
      else if 194 \<le> n \<and> n \<le> 223 then
        (case bs of
           c # rest \<Rightarrow>
             if is_cont c then
               (if n \<le> 195
                then push (char_of ((n - 192) * 64 + ((of_char c :: nat) - 128))) (decode_utf8 rest)
                else wide (decode_utf8 rest))
             else Inl UnicodeDecodeError
         | _ \<Rightarrow> Inl UnicodeDecodeError)
      else if 224 \<le> n \<and> n \<le> 239 then
        (case bs of
           c1 # c2 # rest \<Rightarrow>
             if second_of_three n c1 \<and> is_cont c2 then wide (decode_utf8 rest)
             else Inl UnicodeDecodeError
         | _ \<Rightarrow> Inl UnicodeDecodeError)
      else if 240 \<le> n \<and> n \<le> 244 then
        (case bs of
           c1 # c2 # c3 # rest \<Rightarrow>
             if second_of_four n c1 \<and> is_cont c2 \<and> is_cont c3 then wide (decode_utf8 rest)
             else Inl UnicodeDecodeError
         | _ \<Rightarrow> Inl UnicodeDecodeError)
      else Inl UnicodeDecodeError)"

section \<open>OrderedDict\<close>

text \<open>
  \<open>collections.OrderedDict\<close>: keys in the order of their first insertion, each bound to
  one value.  The four base-class operations that \<open>HeadersDict\<close> calls explicitly are
  modelled on an association list; \<open>OrderedDict.pop\<close> acts on the stored mapping itself
  (CPython 3.11 and later), it does not go through the subclass's \<open>__getitem__\<close>.
\<close>

type_synonym ('k, 'v) OrderedDict = "('k \<times> 'v) list"

definition od_contains :: "('k, 'v) OrderedDict \<Rightarrow> 'k \<Rightarrow> bool" where
  "od_contains d k = (map_of d k \<noteq> None)"

definition od_getitem :: "('k, 'v) OrderedDict \<Rightarrow> 'k \<Rightarrow> error + 'v" where
  "od_getitem d k = (case map_of d k of None \<Rightarrow> Inl KeyError | Some v \<Rightarrow> Inr v)"

fun od_setitem :: "('k, 'v) OrderedDict \<Rightarrow> 'k \<Rightarrow> 'v \<Rightarrow> ('k, 'v) OrderedDict" where
  "od_setitem [] k v = [(k, v)]"
| "od_setitem ((k', v') # d) k v =
     (if k' = k then (k, v) # d else (k', v') # od_setitem d k v)"

definition od_delitem :: "('k, 'v) OrderedDict \<Rightarrow> 'k \<Rightarrow> error + ('k, 'v) OrderedDict" where
  "od_delitem d k =
     (if od_contains d k then Inr (filter (\<lambda>p. fst p \<noteq> k) d) else Inl KeyError)"

text \<open>
  \<open>OrderedDict.pop(d, k, *args)\<close> returns the value bound to \<open>k\<close> and removes the
  key; for a missing key it returns the default when one is given and raises
  \<open>KeyError\<close> otherwise.
\<close>

datatype ('v, 'd) popped = Stored 'v | Default 'd

definition od_pop ::
  "('k, 'v) OrderedDict \<Rightarrow> 'k \<Rightarrow> 'd option \<Rightarrow> error + (('v, 'd) popped \<times> ('k, 'v) OrderedDict)" where
  "od_pop d k dflt =
     (case map_of d k of
        Some v \<Rightarrow> Inr (Stored v, filter (\<lambda>p. fst p \<noteq> k) d)
      | None \<Rightarrow> (case dflt of None \<Rightarrow> Inl KeyError | Some x \<Rightarrow> Inr (Default x, d)))"

section \<open>HeadersDict\<close>

text \<open>
  A \<open>HeadersDict\<close> is an \<open>OrderedDict\<close> from the lowercased field name to the list of
  \<open>(name, value)\<close> pairs stored under it.  \<open>__setitem__\<close>, \<open>__getitem__\<close> and \<open>__contains__\<close>
  pass their arguments through \<open>_checktype\<close>, which decodes a byte string and rejects any
  other type; \<open>getlist\<close>, \<open>pop\<close>, \<open>__delitem__\<close> and \<open>replace\<close> call \<open>key.lower()\<close> on the
  argument as it is, so keys and stored pairs are values of any type.
\<close>

type_synonym HeadersDict = "(pyval, (pyval \<times> pyval) list) OrderedDict"

fun checktype :: "pyval \<Rightarrow> error + string" where
  "checktype (Bytes b) = decode_utf8 b"
| "checktype (Str s) = Inr s"
| "checktype (Other n) = Inl TypeError"

definition contains :: "HeadersDict \<Rightarrow> pyval \<Rightarrow> error + bool" where
  "contains h key = bind (checktype key) (\<lambda>k. Inr (od_contains h (Str (lower k))))"

definition setitem :: "HeadersDict \<Rightarrow> pyval \<Rightarrow> pyval \<Rightarrow> error + HeadersDict" where
  "setitem h key0 value0 =
     bind (checktype key0) (\<lambda>key.
     bind (checktype value0) (\<lambda>val.
       let lkey = Str (lower key) in
       bind (contains h lkey) (\<lambda>present.
         if \<not> present then Inr (od_setitem h lkey [(Str key, Str val)])
         else bind (od_getitem h lkey) (\<lambda>stored.
                Inr (od_setitem h lkey (stored @ [(Str key, Str val)]))))))"

definition getitem :: "HeadersDict \<Rightarrow> pyval \<Rightarrow> error + pyval" where
  "getitem h key =
     bind (checktype key) (\<lambda>k.
     bind (od_getitem h (Str (lower k))) (\<lambda>stored.
       case stored of [] \<Rightarrow> Inl IndexError | (name, val) # rest \<Rightarrow> Inr val))"

definition get :: "HeadersDict \<Rightarrow> pyval \<Rightarrow> pyval \<Rightarrow> error + pyval" where
  "get h key dflt =
     (case getitem h key of Inl KeyError \<Rightarrow> Inr dflt | r \<Rightarrow> r)"

definition getlist :: "HeadersDict \<Rightarrow> pyval \<Rightarrow> error + pyval list" where
  "getlist h key =
     bind (lower_method key) (\<lambda>lkey.
       case od_getitem h lkey of
         Inr stored \<Rightarrow> Inr (map snd stored)
       | Inl KeyError \<Rightarrow> Inr []
       | Inl e \<Rightarrow> Inl e)"

definition delitem :: "HeadersDict \<Rightarrow> pyval \<Rightarrow> error + HeadersDict" where
  "delitem h key = bind (lower_method key) (\<lambda>lkey. od_delitem h lkey)"

definition pop ::
  "HeadersDict \<Rightarrow> pyval \<Rightarrow> 'd option \<Rightarrow>
     error + (((pyval \<times> pyval) list, 'd) popped \<times> HeadersDict)" where
  "pop h key args = bind (lower_method key) (\<lambda>lkey. od_pop h lkey args)"

definition replace :: "HeadersDict \<Rightarrow> pyval \<Rightarrow> pyval \<Rightarrow> error + HeadersDict" where
  "replace h key val = bind (lower_method key) (\<lambda>lkey. Inr (od_setitem h lkey [(key, val)]))"

text \<open>\<open>HeadersDict(items)\<close>: the items are stored one after the other, from the empty dictionary.\<close>

fun store_all :: "HeadersDict \<Rightarrow> (pyval \<times> pyval) list \<Rightarrow> error + HeadersDict" where
  "store_all h [] = Inr h"
| "store_all h ((key, val) # items) = bind (setitem h key val) (\<lambda>h'. store_all h' items)"

definition HeadersDict_init :: "(pyval \<times> pyval) list \<Rightarrow> error + HeadersDict" where
  "HeadersDict_init items = store_all [] items"

text \<open>
  \<open>__bytes__\<close>: the generator walks the keys in dictionary order and, under each key, the
  stored pairs; every pair \<open>v\<close> gives the line \<open>': '.join(v).encode('utf8')\<close>, and \<open>join\<close>
  raises \<open>TypeError\<close> on a pair that holds anything but text.
\<close>

fun pair_line :: "pyval \<times> pyval \<Rightarrow> error + bytes" where
  "pair_line (Str name, Str val) = Inr (encode_utf8 (join '': '' [name, val]))"
| "pair_line v = Inl TypeError"

fun pair_lines :: "(pyval \<times> pyval) list \<Rightarrow> error + bytes list" where
  "pair_lines [] = Inr []"
| "pair_lines (v # vs) =
     bind (pair_line v) (\<lambda>l. bind (pair_lines vs) (\<lambda>ls. Inr (l # ls)))"

fun header_lines :: "HeadersDict \<Rightarrow> pyval list \<Rightarrow> error + bytes list" where
  "header_lines h [] = Inr []"
| "header_lines h (k # ks) =
     bind (od_getitem h k) (\<lambda>stored.
     bind (pair_lines stored) (\<lambda>ls.
     bind (header_lines h ks) (\<lambda>rest. Inr (ls @ rest))))"

definition HeadersDict_bytes :: "HeadersDict \<Rightarrow> error + bytes" where
  "HeadersDict_bytes h =
     (if h = [] then Inr []
      else bind (header_lines h (map fst h)) (\<lambda>ls. Inr (join CRLF ls @ CRLF)))"

text \<open>
  The pairs stored under a text name, and the scenario of inserting twice under one name
  and then reading the name back.
\<close>

definition stored_at :: "HeadersDict \<Rightarrow> string \<Rightarrow> (pyval \<times> pyval) list" where
  "stored_at h key = (case map_of h (Str (lower key)) of None \<Rightarrow> [] | Some ps \<Rightarrow> ps)"

definition insert_twice ::
  "HeadersDict \<Rightarrow> pyval \<Rightarrow> pyval \<Rightarrow> pyval \<Rightarrow> error + HeadersDict" where
  "insert_twice h N v1 v2 = bind (setitem h N v1) (\<lambda>h1. setitem h1 N v2)"

definition then_getlist :: "error + HeadersDict \<Rightarrow> pyval \<Rightarrow> error + pyval list" where
  "then_getlist r N = bind r (\<lambda>h. getlist h N)"

definition then_getitem :: "error + HeadersDict \<Rightarrow> pyval \<Rightarrow> error + pyval" where
  "then_getitem r N = bind r (\<lambda>h. getitem h N)"

text \<open>
  A list of text items, the block that inserting them one after the other builds, and
  the order in which that block holds them: grouped by lowercased name, the names in the
  order of their first insertion, the items of one name in the order of their insertion.
\<close>

definition text_item :: "string \<times> string \<Rightarrow> pyval \<times> pyval" where
  "text_item p = (Str (fst p), Str (snd p))"

definition names :: "(string \<times> string) list \<Rightarrow> string list" where
  "names items = map (\<lambda>p. lower (fst p)) items"

definition firsts :: "'a list \<Rightarrow> 'a list" where
  "firsts xs = rev (remdups (rev xs))"

definition items_under :: "string \<Rightarrow> (string \<times> string) list \<Rightarrow> (string \<times> string) list" where
  "items_under k items = filter (\<lambda>p. lower (fst p) = k) items"

definition group_by_name :: "(string \<times> string) list \<Rightarrow> (string \<times> string) list" where
  "group_by_name items = concat (map (\<lambda>k. items_under k items) (firsts (names items)))"

definition dict_of :: "(string \<times> string) list \<Rightarrow> HeadersDict" where
  "dict_of items = map (\<lambda>k. (Str k, map text_item (items_under k items))) (firsts (names items))"

definition header_line :: "string \<times> string \<Rightarrow> bytes" where
  "header_line p = encode_utf8 (fst p) @ '': '' @ encode_utf8 (snd p) @ CRLF"

definition serialized :: "(pyval \<times> pyval) list \<Rightarrow> error + bytes" where
  "serialized items = bind (HeadersDict_init items) HeadersDict_bytes"

section \<open>ICAPRequest\<close>

text \<open>
  An \<open>ICAPRequest\<close> carries a request line, a header block and the encapsulated HTTP
  message; \<open>allow_204\<close> reads the header block only.  The operator \<open>in\<close> with text on the
  left raises \<open>TypeError\<close> when the right side is not text.
\<close>

record ('line, 'http) ICAPRequest =
  request_line :: 'line
  headers :: HeadersDict
  http :: "'http option"

fun str_in :: "string \<Rightarrow> pyval \<Rightarrow> error + bool" where
  "str_in needle (Str hay) = Inr (str_contains hay needle)"
| "str_in needle v = Inl TypeError"

definition allow_204 :: "('line, 'http) ICAPRequest \<Rightarrow> error + bool" where
  "allow_204 r =
     bind (get (headers r) (Str ''allow'') (Str '''')) (\<lambda>allow.
     bind (str_in ''204'' allow) (\<lambda>found.
       if found then Inr True
       else contains (headers r) (Str ''preview'')))"

section \<open>RequestLine\<close>

text \<open>
  A request line is the triple of method, parsed URI and version.  The URI is the
  \<open>ParseResult\<close> of \<open>urllib.parse\<close>, with the query text replaced by the multimap that
  \<open>parse_qs\<close> reads from it.  The functions \<open>urlparse\<close>, \<open>parse_qs\<close>, \<open>urlencode\<close> (with
  \<open>doseq=True\<close>) and \<open>geturl\<close> belong to the standard library and are parameters here.
\<close>

record 'q ParseResult =
  scheme :: string
  netloc :: string
  path :: string
  params :: string
  query :: 'q
  fragment :: string

type_synonym multimap = "string \<rightharpoonup> string list"

type_synonym RequestLine = "string \<times> multimap ParseResult \<times> string"

definition replace_query :: "'a ParseResult \<Rightarrow> 'b \<Rightarrow> 'b ParseResult" where
  "replace_query u q =
     \<lparr>scheme = scheme u, netloc = netloc u, path = path u, params = params u,
      query = q, fragment = fragment u\<rparr>"

definition RequestLine_new ::
  "(string \<Rightarrow> error + string ParseResult) \<Rightarrow> (string \<Rightarrow> error + multimap) \<Rightarrow>
     string \<Rightarrow> string \<Rightarrow> string \<Rightarrow> error + RequestLine" where
  "RequestLine_new urlparse parse_qs method uri0 ver =
     bind (urlparse uri0) (\<lambda>uri.
     bind (parse_qs (query uri)) (\<lambda>q.
       Inr (method, replace_query uri q, ver)))"

definition RequestLine_bytes ::
  "(multimap \<Rightarrow> error + string) \<Rightarrow> (string ParseResult \<Rightarrow> string) \<Rightarrow>
     RequestLine \<Rightarrow> error + bytes" where
  "RequestLine_bytes urlencode geturl self =
     (case self of (method, uri, ver) \<Rightarrow>
        bind (urlencode (query uri)) (\<lambda>q.
          Inr (encode_utf8 (join '' '' [method, geturl (replace_query uri q), ver]))))"

section \<open>StatusLine\<close>

text \<open>
  The two reason tables \<open>http_response_codes\<close> and \<open>icap_response_codes\<close> are defined in
  \<open>icap/errors.py\<close>; they are parameters here, as is the conversion \<open>int\<close> of a code
  given as text.
\<close>

record StatusLine =
  version :: string
  code :: int
  reason :: string

datatype code_arg = IntCode int | StrCode string

definition to_int :: "(string \<Rightarrow> int option) \<Rightarrow> code_arg \<Rightarrow> error + int" where
  "to_int py_int c =
     (case c of
        IntCode n \<Rightarrow> Inr n
      | StrCode s \<Rightarrow> (case py_int s of None \<Rightarrow> Inl ValueError | Some n \<Rightarrow> Inr n))"

definition table_getitem :: "(int \<rightharpoonup> string) \<Rightarrow> int \<Rightarrow> error + string" where
  "table_getitem t c = (case t c of None \<Rightarrow> Inl KeyError | Some r \<Rightarrow> Inr r)"

definition StatusLine_new ::
  "(int \<rightharpoonup> string) \<Rightarrow> (int \<rightharpoonup> string) \<Rightarrow> (string \<Rightarrow> int option) \<Rightarrow>
     string \<Rightarrow> code_arg \<Rightarrow> string list \<Rightarrow> error + StatusLine" where
  "StatusLine_new http_response_codes icap_response_codes py_int ver code0 args =
     bind (to_int py_int code0) (\<lambda>c.
     bind (case args of
             [] \<Rightarrow> (if startswith ver ''HTTP'' then table_getitem http_response_codes c
                    else table_getitem icap_response_codes c)
           | [r] \<Rightarrow> Inr r
           | _ \<Rightarrow> Inl ValueError) (\<lambda>r.
       Inr \<lparr>version = ver, code = c, reason = r\<rparr>))"

section \<open>Hooks\<close>

text \<open>
  A call of a Python callable either returns a value or raises.  A raised exception is
  recorded with its class name and with whether that class derives from \<open>Exception\<close>
  (\<open>SystemExit\<close>, \<open>KeyboardInterrupt\<close> and \<open>GeneratorExit\<close> derive from \<open>BaseException\<close>
  only).  Python's \<open>None\<close> is \<^term>\<open>None\<close>.
\<close>

datatype exc = ExceptionSubclass string | BaseExceptionOnly string

type_synonym ('a, 'v) callable = "'a list \<Rightarrow> (string \<times> 'a) list \<Rightarrow> exc + 'v option"

type_synonym ('a, 'v) Hooks = "string \<rightharpoonup> (('a, 'v) callable \<times> 'v option)"

text \<open>\<open>lambda *args: None\<close> takes positional arguments only.\<close>

definition default_func :: "('a, 'v) callable" where
  "default_func args kwargs = (if kwargs = [] then Inr None else Inl (ExceptionSubclass ''TypeError''))"

definition safe_callable ::
  "('a, 'v) callable \<Rightarrow> 'v option \<Rightarrow> ('a, 'v) callable" where
  "safe_callable func dflt args kwargs =
     (case func args kwargs of
        Inr v \<Rightarrow> Inr v
      | Inl (ExceptionSubclass c) \<Rightarrow> Inr dflt
      | Inl (BaseExceptionOnly c) \<Rightarrow> Inl (BaseExceptionOnly c))"

definition Hooks_getitem :: "('a, 'v) Hooks \<Rightarrow> string \<Rightarrow> ('a, 'v) callable" where
  "Hooks_getitem hooks name =
     (case hooks name of
        Some (func, dflt) \<Rightarrow> safe_callable func dflt
      | None \<Rightarrow> safe_callable default_func None)"

text \<open>
  \<open>hooks(name, default, override)\<close> fixes the fallback and returns the decorator
  \<open>wrapped\<close>, a closure over \<open>name\<close> and \<open>default\<close>; applying it to a function stores the
  pair.  A registration \<open>@hooks(name, default, override)\<close> does one after the other.
\<close>

definition Hooks_call ::
  "('a, 'v) Hooks \<Rightarrow> string \<Rightarrow> 'v option \<Rightarrow> bool \<Rightarrow> string \<times> 'v option" where
  "Hooks_call hooks name dflt override =
     (if hooks name \<noteq> None \<and> \<not> override
      then (case hooks name of Some (oldfunc, d) \<Rightarrow> (name, d) | None \<Rightarrow> (name, dflt))
      else (name, dflt))"

definition wrapped ::
  "string \<times> 'v option \<Rightarrow> ('a, 'v) callable \<Rightarrow> ('a, 'v) Hooks \<Rightarrow> ('a, 'v) Hooks" where
  "wrapped closure func hooks = hooks(fst closure \<mapsto> (func, snd closure))"

definition register ::
  "('a, 'v) Hooks \<Rightarrow> string \<Rightarrow> 'v option \<Rightarrow> bool \<Rightarrow> ('a, 'v) callable \<Rightarrow> ('a, 'v) Hooks" where
  "register hooks name dflt override func =
     wrapped (Hooks_call hooks name dflt override) func hooks"

definition fallback :: "('a, 'v) Hooks \<Rightarrow> string \<Rightarrow> 'v option option" where
  "fallback hooks name = map_option snd (hooks name)"

record ('a, 'v) registration =
  reg_name :: string
  reg_default :: "'v option"
  reg_override :: bool
  reg_func :: "('a, 'v) callable"

fun register_all :: "('a, 'v) Hooks \<Rightarrow> ('a, 'v) registration list \<Rightarrow> ('a, 'v) Hooks" where
  "register_all hooks [] = hooks"
| "register_all hooks (r # rs) =
     register_all (register hooks (reg_name r) (reg_default r) (reg_override r) (reg_func r)) rs"

text \<open>
  Two hook bodies for the examples: one raises \<open>ValueError\<close>, the other calls
  \<open>sys.exit()\<close>, which raises \<open>SystemExit\<close>.
\<close>

definition failing_hook :: "(unit, string) callable" where
  "failing_hook args kwargs = Inl (ExceptionSubclass ''ValueError'')"

definition exiting_hook :: "(unit, string) callable" where
  "exiting_hook args kwargs = Inl (BaseExceptionOnly ''SystemExit'')"

section \<open>The server handle\<close>

text \<open>
  The module keeps the running server under the global name \<open>_server\<close>.  Names are
  resolved as Python does: an assignment inside a function binds a local name unless the
  name is declared \<open>global\<close> there; a name that is only read is looked up in the module.
\<close>

datatype handle = NoneValue | ServerObject (closed: bool)

type_synonym namespace = "string \<rightharpoonup> handle"

definition assign ::
  "string set \<Rightarrow> string \<Rightarrow> handle \<Rightarrow> namespace \<times> namespace \<Rightarrow> namespace \<times> namespace" where
  "assign declared_global name v scopes =
     (case scopes of (locals, globals) \<Rightarrow>
        if name \<in> declared_global then (locals, globals(name \<mapsto> v))
        else (locals(name \<mapsto> v), globals))"

text \<open>
  \<open>stop\<close> declares \<open>global server\<close>, asserts that \<open>_server\<close> is set, closes it and
  assigns \<open>None\<close> to the name \<open>_serevr\<close>.  The result is the module namespace after the
  call.
\<close>

definition stop :: "namespace \<Rightarrow> error + namespace" where
  "stop globals =
     (case globals ''_server'' of
        None \<Rightarrow> Inl NameError
      | Some NoneValue \<Rightarrow> Inl AssertionError
      | Some (ServerObject c) \<Rightarrow>
          (let globals1 = globals(''_server'' \<mapsto> ServerObject True);
               scopes = assign {''server''} ''_serevr'' NoneValue (Map.empty, globals1)
           in Inr (snd scopes)))"

definition server_after_stop :: "namespace \<Rightarrow> error + handle option" where
  "server_after_stop globals = bind (stop globals) (\<lambda>g. Inr (g ''_server''))"

section \<open>Properties of the header block\<close>

lemma lower_char_idem: "lower_char (lower_char c) = lower_char c"
proof -
  have "of_char (char_of (n + 32 :: nat)) = n + 32" if "n \<le> 222" for n
    using that by simp
  then show ?thesis
    by (auto simp add: lower_char_def Let_def)
qed

lemma lower_idem: "lower (lower s) = lower s"
  by (simp add: lower_def lower_char_idem)

lemma map_of_od_setitem: "map_of (od_setitem d k v) = (map_of d)(k \<mapsto> v)"
  by (induction d k v rule: od_setitem.induct) auto

text \<open>On text arguments \<open>_checktype\<close> changes nothing and the operations never fail.\<close>

lemma setitem_text:
  "setitem h (Str key) (Str v) =
     Inr (od_setitem h (Str (lower key)) (stored_at h key @ [(Str key, Str v)]))"
  by (simp add: setitem_def bind_def contains_def od_contains_def od_getitem_def
      lower_idem stored_at_def Let_def split: option.splits)

lemma getlist_text: "getlist h (Str key) = Inr (map snd (stored_at h key))"
  by (simp add: getlist_def bind_def od_getitem_def stored_at_def split: option.splits)

lemma stored_at_od_setitem: "stored_at (od_setitem h (Str (lower key)) ps) key = ps"
  by (simp add: stored_at_def map_of_od_setitem)

lemma getitem_text:
  "getitem h (Str key) =
     (case map_of h (Str (lower key)) of
        None \<Rightarrow> Inl KeyError
      | Some [] \<Rightarrow> Inl IndexError
      | Some (p # ps) \<Rightarrow> Inr (snd p))"
  by (simp add: getitem_def bind_def od_getitem_def split: option.splits list.splits)

lemma insert_twice_text:
  "insert_twice h (Str N) (Str v1) (Str v2) =
     Inr (od_setitem (od_setitem h (Str (lower N)) (stored_at h N @ [(Str N, Str v1)]))
            (Str (lower N)) (stored_at h N @ [(Str N, Str v1), (Str N, Str v2)]))"
  by (simp add: insert_twice_def setitem_text bind_def stored_at_od_setitem)

text \<open>
  Insertion appends: whatever \<open>h\<close> already holds under \<open>N\<close> stays in front of the two new
  values, and the indexed lookup returns the first of them all.
\<close>

lemma getlist_insert_twice:
  "then_getlist (insert_twice h (Str N) (Str v1) (Str v2)) (Str N)
     = Inr (map snd (stored_at h N) @ [Str v1, Str v2])"
  by (simp add: then_getlist_def insert_twice_text bind_def getlist_text stored_at_od_setitem)

lemma getitem_insert_twice:
  "then_getitem (insert_twice h (Str N) (Str v1) (Str v2)) (Str N)
     = Inr (hd (map snd (stored_at h N) @ [Str v1, Str v2]))"
  by (cases "stored_at h N")
     (simp_all add: then_getitem_def insert_twice_text bind_def getitem_text map_of_od_setitem)

text \<open>
  C3, as stated for every \<open>h\<close>, fails on a header block that already holds a value under
  the name: with \<open>Via: 0\<close> stored, inserting \<open>1\<close> and \<open>2\<close> under \<open>VIA\<close> gives the list
  \<open>[0, 1, 2]\<close> and the first value \<open>0\<close>.
\<close>

theorem insert_twice_counterexample:
  "\<not> (then_getlist (insert_twice [(Str ''via'', [(Str ''Via'', Str ''0'')])]
          (Str ''VIA'') (Str ''1'') (Str ''2'')) (Str ''VIA'')
        = Inr [Str ''1'', Str ''2''] \<and>
      then_getitem (insert_twice [(Str ''via'', [(Str ''Via'', Str ''0'')])]
          (Str ''VIA'') (Str ''1'') (Str ''2'')) (Str ''VIA'')
        = Inr (Str ''1''))"
  by code_simp

text \<open>
  It fails as well when the name is a byte string, even on the empty block: insertion
  decodes the name and stores the pairs under text, \<open>getlist\<close> lowercases the byte string
  as it is and finds nothing.  When the values are byte strings, what is read back is
  their decoded text; a value of another type is refused with \<open>TypeError\<close>.
\<close>

lemma insert_twice_bytes_name:
  "then_getlist (insert_twice [] (Bytes ''Via'') (Str ''a'') (Str ''b'')) (Bytes ''Via'') = Inr []"
  "then_getitem (insert_twice [] (Bytes ''Via'') (Str ''a'') (Str ''b'')) (Bytes ''Via'')
     = Inr (Str ''a'')"
  by code_simp+

lemma insert_twice_other_values:
  "then_getlist (insert_twice [] (Str ''Via'') (Bytes ''a'') (Bytes ''b'')) (Str ''Via'')
     = Inr [Str ''a'', Str ''b'']"
  "insert_twice [] (Str ''Via'') (Other 1) (Str ''b'') = Inl TypeError"
  by code_simp+

text \<open>
  C3 (amended): for every header block \<open>h\<close> that holds no value under the text name \<open>N\<close>
  (compared case-insensitively) and all text values \<open>v1\<close>, \<open>v2\<close>: after inserting
  \<open>(N, v1)\<close> and then \<open>(N, v2)\<close>, \<open>getlist(N)\<close> returns \<open>[v1, v2]\<close> and \<open>h[N]\<close> returns \<open>v1\<close>.
\<close>

theorem insert_twice_fresh:
  "getlist h (Str N) = Inr [] \<Longrightarrow>
     then_getlist (insert_twice h (Str N) (Str v1) (Str v2)) (Str N) = Inr [Str v1, Str v2] \<and>
     then_getitem (insert_twice h (Str N) (Str v1) (Str v2)) (Str N) = Inr (Str v1)"
  by (simp add: getlist_insert_twice getitem_insert_twice getlist_text)

theorem insert_twice_fresh_witness:
  "getlist [(Str ''host'', [(Str ''Host'', Str ''example'')])] (Str ''Via'') = Inr [] \<and>
   then_getlist (insert_twice [(Str ''host'', [(Str ''Host'', Str ''example'')])]
       (Str ''Via'') (Str ''a'') (Str ''b'')) (Str ''Via'')
     = Inr [Str ''a'', Str ''b''] \<and>
   then_getitem (insert_twice [(Str ''host'', [(Str ''Host'', Str ''example'')])]
       (Str ''Via'') (Str ''a'') (Str ''b'')) (Str ''Via'')
     = Inr (Str ''a'')"
proof -
  have g: "getlist [(Str ''host'', [(Str ''Host'', Str ''example'')])] (Str ''Via'') = Inr []"
    by code_simp
  show ?thesis
    using g insert_twice_fresh [OF g, of "''a''" "''b''"] by simp
qed

subsection \<open>The block built by insertion\<close>

lemma firsts_snoc: "firsts (xs @ [x]) = (if x \<in> set xs then firsts xs else firsts xs @ [x])"
  by (simp add: firsts_def)

lemma set_firsts: "set (firsts xs) = set xs"
  by (simp add: firsts_def)

lemma distinct_firsts: "distinct (firsts xs)"
  by (simp add: firsts_def)

lemma names_snoc: "names (xs @ [p]) = names xs @ [lower (fst p)]"
  by (simp add: names_def)

lemma under_snoc: "items_under k (xs @ [p]) = items_under k xs @ (if lower (fst p) = k then [p] else [])"
  by (simp add: items_under_def)

lemma under_absent: "k \<notin> set (names xs) \<Longrightarrow> items_under k xs = []"
  by (auto simp add: items_under_def names_def filter_empty_conv)

lemma map_of_keyed:
  "map_of (map (\<lambda>k. (Str k, g k)) ks) (Str k) = (if k \<in> set ks then Some (g k) else None)"
  by (induction ks) auto

lemma map_of_dict_of:
  "map_of (dict_of xs) (Str k) =
     (if k \<in> set (names xs) then Some (map text_item (items_under k xs)) else None)"
  by (simp add: dict_of_def map_of_keyed set_firsts)

lemma stored_at_dict_of: "stored_at (dict_of xs) n = map text_item (items_under (lower n) xs)"
  by (simp add: stored_at_def map_of_dict_of under_absent)

lemma od_setitem_keyed_mem:
  "distinct ks \<Longrightarrow> k \<in> set ks \<Longrightarrow>
     od_setitem (map (\<lambda>k. (Str k, g k)) ks) (Str k) v =
       map (\<lambda>k'. (Str k', if k' = k then v else g k')) ks"
proof (induction ks)
  case Nil
  then show ?case by simp
next
  case (Cons a ks)
  show ?case
  proof (cases "a = k")
    case True
    with Cons.prems have "k \<notin> set ks" by simp
    then have "map (\<lambda>k'. (Str k', if k' = k then v else g k')) ks = map (\<lambda>k. (Str k, g k)) ks"
      by (intro map_cong refl) auto
    with True show ?thesis by simp
  next
    case False
    with Cons show ?thesis by simp
  qed
qed

lemma od_setitem_keyed_new:
  "k \<notin> set ks \<Longrightarrow>
     od_setitem (map (\<lambda>k. (Str k, g k)) ks) (Str k) v = map (\<lambda>k. (Str k, g k)) ks @ [(Str k, v)]"
  by (induction ks) auto

text \<open>
  One insertion of a text item into the block built from \<open>xs\<close> gives the block built from
  \<open>xs\<close> followed by the item; so the constructor, and any run of insertions after it,
  builds \<open>dict_of\<close> of the items inserted.
\<close>

lemma setitem_dict_of: "setitem (dict_of xs) (Str n) (Str v) = Inr (dict_of (xs @ [(n, v)]))"
proof -
  let ?k = "lower n"
  let ?new = "map text_item (items_under ?k xs) @ [(Str n, Str v)]"
  have new: "?new = map text_item (items_under ?k (xs @ [(n, v)]))"
    by (simp add: under_snoc text_item_def)
  have other: "items_under k' (xs @ [(n, v)]) = items_under k' xs" if "k' \<noteq> ?k" for k'
    using that by (auto simp add: under_snoc)
  have s: "setitem (dict_of xs) (Str n) (Str v) = Inr (od_setitem (dict_of xs) (Str ?k) ?new)"
    by (simp add: setitem_text stored_at_dict_of)
  show ?thesis
  proof (cases "?k \<in> set (names xs)")
    case True
    then have f: "firsts (names (xs @ [(n, v)])) = firsts (names xs)"
      by (simp add: names_snoc firsts_snoc)
    from True have "od_setitem (dict_of xs) (Str ?k) ?new =
        map (\<lambda>k'. (Str k', if k' = ?k then ?new else map text_item (items_under k' xs)))
          (firsts (names xs))"
      unfolding dict_of_def
      by (intro od_setitem_keyed_mem) (simp_all add: distinct_firsts set_firsts)
    also have "\<dots> = map (\<lambda>k'. (Str k', map text_item (items_under k' (xs @ [(n, v)]))))
          (firsts (names xs))"
      using new other by (intro map_cong refl) auto
    also have "\<dots> = dict_of (xs @ [(n, v)])"
      by (simp only: dict_of_def f)
    finally show ?thesis
      using s by simp
  next
    case False
    then have f: "firsts (names (xs @ [(n, v)])) = firsts (names xs) @ [?k]"
      by (simp add: names_snoc firsts_snoc)
    from False have "od_setitem (dict_of xs) (Str ?k) ?new =
        map (\<lambda>k'. (Str k', map text_item (items_under k' xs))) (firsts (names xs)) @ [(Str ?k, ?new)]"
      unfolding dict_of_def
      by (intro od_setitem_keyed_new) (simp add: set_firsts)
    also have "map (\<lambda>k'. (Str k', map text_item (items_under k' xs))) (firsts (names xs))
        = map (\<lambda>k'. (Str k', map text_item (items_under k' (xs @ [(n, v)])))) (firsts (names xs))"
    proof (intro map_cong refl)
      fix k'
      assume "k' \<in> set (firsts (names xs))"
      with False have "k' \<noteq> ?k" by (auto simp add: set_firsts)
      then show "(Str k', map text_item (items_under k' xs))
          = (Str k', map text_item (items_under k' (xs @ [(n, v)])))"
        by (simp add: other)
    qed
    finally have "od_setitem (dict_of xs) (Str ?k) ?new = dict_of (xs @ [(n, v)])"
      by (simp add: dict_of_def f new)
    with s show ?thesis by simp
  qed
qed

lemma store_all_dict_of:
  "store_all (dict_of xs) (map text_item items) = Inr (dict_of (xs @ items))"
proof (induction items arbitrary: xs)
  case Nil
  then show ?case by simp
next
  case (Cons p items)
  have "store_all (dict_of xs) (map text_item (p # items))
      = store_all (dict_of (xs @ [p])) (map text_item items)"
    by (cases p) (simp add: text_item_def setitem_dict_of bind_def)
  with Cons [of "xs @ [p]"] show ?case by simp
qed

lemma HeadersDict_init_dict_of: "HeadersDict_init (map text_item items) = Inr (dict_of items)"
  using store_all_dict_of [of "[]" items] by (simp add: HeadersDict_init_def dict_of_def names_def firsts_def)

subsection \<open>Removal\<close>

text \<open>
  C4: on a block that holds two pairs under \<open>Via\<close>, \<open>pop('via')\<close> removes the name and
  returns the stored list of \<open>(name, value)\<close> pairs; the first value, which the indexed
  lookup returns on the same block, is the text \<open>1\<close>.
\<close>

theorem pop_returns_stored_list:
  "HeadersDict_init [(Str ''Via'', Str ''1''), (Str ''Via'', Str ''2'')]
     = Inr [(Str ''via'', [(Str ''Via'', Str ''1''), (Str ''Via'', Str ''2'')])] \<and>
   pop [(Str ''via'', [(Str ''Via'', Str ''1''), (Str ''Via'', Str ''2'')])] (Str ''via'')
       (None :: unit option)
     = Inr (Stored [(Str ''Via'', Str ''1''), (Str ''Via'', Str ''2'')], []) \<and>
   getitem [(Str ''via'', [(Str ''Via'', Str ''1''), (Str ''Via'', Str ''2'')])] (Str ''via'')
     = Inr (Str ''1'')"
  by code_simp

text \<open>
  Removing a text name from the block built from \<open>xs\<close> leaves the block built from the
  items of \<open>xs\<close> with other names, so removal keeps a block in the form that insertion
  builds.
\<close>

lemma firsts_filter: "firsts (filter P xs) = filter P (firsts xs)"
  by (simp add: firsts_def remdups_filter rev_filter)

lemma dict_of_without:
  "filter (\<lambda>e. fst e \<noteq> Str k) (dict_of xs) = dict_of (filter (\<lambda>p. lower (fst p) \<noteq> k) xs)"
proof -
  let ?ys = "filter (\<lambda>p. lower (fst p) \<noteq> k) xs"
  have n: "names ?ys = filter (\<lambda>k'. k' \<noteq> k) (names xs)"
    by (simp add: names_def filter_map comp_def)
  have u: "items_under k' ?ys = items_under k' xs" if "k' \<noteq> k" for k'
    using that by (auto simp add: items_under_def intro: filter_cong)
  have "filter (\<lambda>e. fst e \<noteq> Str k) (dict_of xs)
      = map (\<lambda>k'. (Str k', map text_item (items_under k' xs)))
          (filter (\<lambda>k'. k' \<noteq> k) (firsts (names xs)))"
    by (simp add: dict_of_def filter_map comp_def)
  also have "\<dots> = map (\<lambda>k'. (Str k', map text_item (items_under k' ?ys)))
          (filter (\<lambda>k'. k' \<noteq> k) (firsts (names xs)))"
    by (intro map_cong refl) (simp add: u)
  also have "\<dots> = dict_of ?ys"
    by (simp add: dict_of_def n firsts_filter)
  finally show ?thesis .
qed

lemma delitem_dict_of:
  "delitem (dict_of xs) (Str n) = Inr h' \<Longrightarrow>
     h' = dict_of (filter (\<lambda>p. lower (fst p) \<noteq> lower n) xs)"
  by (auto simp add: delitem_def bind_def od_delitem_def dict_of_without split: if_splits)

lemma pop_dict_of:
  "pop (dict_of xs) (Str n) None = Inr (r, h') \<Longrightarrow>
     h' = dict_of (filter (\<lambda>p. lower (fst p) \<noteq> lower n) xs)"
  by (auto simp add: pop_def bind_def od_pop_def dict_of_without split: option.splits)

subsection \<open>Serialization\<close>

lemma encode_pair: "encode_utf8 (join '': '' [fst p, snd p]) @ CRLF = header_line p"
  by (simp add: header_line_def encode_utf8_def encode_char_def)

lemma join_CRLF: "ls \<noteq> [] \<Longrightarrow> join CRLF ls @ CRLF = concat (map (\<lambda>l. l @ CRLF) ls)"
  by (induction CRLF ls rule: join.induct) simp_all

lemma pair_lines_text:
  "pair_lines (map text_item ps) = Inr (map (\<lambda>p. encode_utf8 (join '': '' [fst p, snd p])) ps)"
  by (induction ps) (simp_all add: text_item_def bind_def)

lemma header_lines_dict_of:
  "set ks \<subseteq> set (names xs) \<Longrightarrow>
     header_lines (dict_of xs) (map Str ks) =
       Inr (map (\<lambda>p. encode_utf8 (join '': '' [fst p, snd p]))
              (concat (map (\<lambda>k. items_under k xs) ks)))"
  by (induction ks) (simp_all add: bind_def od_getitem_def map_of_dict_of pair_lines_text)

lemma keys_dict_of: "map fst (dict_of xs) = map Str (firsts (names xs))"
  by (simp add: dict_of_def comp_def)

lemma firsts_empty: "firsts ys = [] \<longleftrightarrow> ys = []"
proof -
  have "firsts ys = [] \<longleftrightarrow> set (firsts ys) = {}" by simp
  also have "\<dots> \<longleftrightarrow> ys = []" by (simp only: set_firsts set_empty)
  finally show ?thesis .
qed

lemma dict_of_empty: "dict_of xs = [] \<longleftrightarrow> xs = []"
  by (simp add: dict_of_def firsts_empty names_def)

lemma group_by_name_nonempty: "xs \<noteq> [] \<Longrightarrow> group_by_name xs \<noteq> []"
proof -
  assume "xs \<noteq> []"
  then obtain p where p: "p \<in> set xs" by (cases xs) auto
  then have "lower (fst p) \<in> set (firsts (names xs))"
    by (simp add: set_firsts names_def)
  moreover from p have "items_under (lower (fst p)) xs \<noteq> []"
    by (auto simp add: items_under_def filter_empty_conv)
  ultimately show ?thesis
    by (auto simp add: group_by_name_def)
qed

lemma HeadersDict_bytes_dict_of:
  "HeadersDict_bytes (dict_of xs) = Inr (concat (map header_line (group_by_name xs)))"
proof (cases "xs = []")
  case True
  then show ?thesis
    by (simp add: HeadersDict_bytes_def dict_of_def group_by_name_def names_def firsts_def)
next
  case False
  let ?line = "\<lambda>p. encode_utf8 (join '': '' [fst p, snd p])"
  from False have ne: "map ?line (group_by_name xs) \<noteq> []"
    by (simp add: group_by_name_nonempty)
  from False have "HeadersDict_bytes (dict_of xs) =
      bind (header_lines (dict_of xs) (map Str (firsts (names xs))))
        (\<lambda>ls. Inr (join CRLF ls @ CRLF))"
    by (simp add: HeadersDict_bytes_def dict_of_empty keys_dict_of)
  also have "header_lines (dict_of xs) (map Str (firsts (names xs)))
      = Inr (map ?line (group_by_name xs))"
    unfolding group_by_name_def by (rule header_lines_dict_of) (simp add: set_firsts)
  also have "bind (Inr (map ?line (group_by_name xs))) (\<lambda>ls. Inr (join CRLF ls @ CRLF))
      = Inr (join CRLF (map ?line (group_by_name xs)) @ CRLF)"
    by (simp add: bind_def)
  also have "join CRLF (map ?line (group_by_name xs)) @ CRLF
      = concat (map (\<lambda>l. l @ CRLF) (map ?line (group_by_name xs)))"
    using ne by (rule join_CRLF)
  also have "map (\<lambda>l. l @ CRLF) (map ?line (group_by_name xs)) = map header_line (group_by_name xs)"
    by (simp only: map_map comp_def encode_pair)
  finally show ?thesis .
qed

text \<open>
  C6, as stated, fails when a name comes back after another name was inserted: the
  items \<open>Via: 1\<close>, \<open>Host: a\<close>, \<open>Via: 2\<close>, inserted in this order, serialize as \<open>Via: 1\<close>,
  \<open>Via: 2\<close>, \<open>Host: a\<close>.
\<close>

theorem serialized_counterexample:
  "\<not> (serialized [(Str ''Via'', Str ''1''), (Str ''Host'', Str ''a''), (Str ''Via'', Str ''2'')]
        = Inr (concat (map header_line [(''Via'', ''1''), (''Host'', ''a''), (''Via'', ''2'')])))"
  by code_simp

text \<open>
  A block does not serialize at all when a pair in it holds a byte string, which
  \<open>replace\<close> stores as it is given.
\<close>

lemma replace_bytes_not_serialized:
  "bind (replace [] (Bytes ''Via'') (Str ''1'')) HeadersDict_bytes = Inl TypeError"
  by code_simp

text \<open>
  C6 (amended): for every header block built by inserting text items one after the
  other, serialization emits one line \<open>Name: Value\<close> followed by CRLF for each inserted
  item, the items grouped by case-insensitive name: the names in the order of their
  first insertion and, under each name, its items in the order of their insertion.  The
  last line's CRLF ends the output, and the empty block serializes to the empty byte
  string.
\<close>

theorem serialized_grouped:
  "serialized (map text_item items) = Inr (concat (map header_line (group_by_name items))) \<and>
   HeadersDict_bytes [] = Inr []"
proof
  show "serialized (map text_item items) = Inr (concat (map header_line (group_by_name items)))"
    by (simp only: serialized_def HeadersDict_init_dict_of bind_def sum.case
        HeadersDict_bytes_dict_of)
  show "HeadersDict_bytes [] = Inr []"
    by (simp add: HeadersDict_bytes_def)
qed

text \<open>
  The lines come in the order of insertion itself when no name is inserted twice.
\<close>

lemma group_by_name_distinct: "distinct (names xs) \<Longrightarrow> group_by_name xs = xs"
proof (induction xs rule: rev_induct)
  case Nil
  then show ?case by (simp add: group_by_name_def names_def firsts_def)
next
  case (snoc p xs)
  let ?k = "lower (fst p)"
  from snoc.prems have d: "distinct (names xs)" and new: "?k \<notin> set (names xs)"
    by (simp_all add: names_snoc)
  have old: "map (\<lambda>k. items_under k (xs @ [p])) (firsts (names xs))
      = map (\<lambda>k. items_under k xs) (firsts (names xs))"
  proof (intro map_cong refl)
    fix k
    assume "k \<in> set (firsts (names xs))"
    with new have "?k \<noteq> k" by (auto simp add: set_firsts)
    then show "items_under k (xs @ [p]) = items_under k xs" by (simp add: under_snoc)
  qed
  from new have "group_by_name (xs @ [p])
      = concat (map (\<lambda>k. items_under k (xs @ [p])) (firsts (names xs)))
          @ items_under ?k (xs @ [p])"
    by (simp add: group_by_name_def names_snoc firsts_snoc)
  also have "\<dots> = group_by_name xs @ items_under ?k (xs @ [p])"
    by (simp only: old group_by_name_def)
  also from new have "items_under ?k (xs @ [p]) = [p]"
    by (simp add: under_snoc under_absent)
  finally show ?case
    using snoc.IH [OF d] by simp
qed

section \<open>Properties of the request\<close>

text \<open>
  C1: a request whose only header is \<open>Allow: 2040\<close> is reported as permitting a 204
  response, because the test is for the text \<open>204\<close> anywhere in the header value.
\<close>

theorem allow_204_of_2040:
  "HeadersDict_init [(Str ''Allow'', Str ''2040'')]
     = Inr [(Str ''allow'', [(Str ''Allow'', Str ''2040'')])] \<and>
   allow_204 \<lparr>request_line = (), headers = [(Str ''allow'', [(Str ''Allow'', Str ''2040'')])],
              http = (None :: unit option)\<rparr> = Inr True"
  by code_simp

text \<open>
  The same test reports \<open>Allow: 204, foo\<close> and \<open>Preview: 0\<close> as permitting a 204
  response, and \<open>Allow: 200\<close> as not permitting it.
\<close>

lemma allow_204_examples:
  "allow_204 \<lparr>request_line = (), headers = [(Str ''allow'', [(Str ''Allow'', Str ''204, foo'')])],
              http = (None :: unit option)\<rparr> = Inr True"
  "allow_204 \<lparr>request_line = (), headers = [(Str ''preview'', [(Str ''Preview'', Str ''0'')])],
              http = (None :: unit option)\<rparr> = Inr True"
  "allow_204 \<lparr>request_line = (), headers = [(Str ''allow'', [(Str ''Allow'', Str ''200'')])],
              http = (None :: unit option)\<rparr> = Inr False"
  by code_simp+

section \<open>Properties of the request line\<close>

text \<open>
  Serialization joins method, URI and version with single spaces and the constructor
  takes any text as method and version, so two different request lines can serialize to
  the same bytes, whatever the URI functions of the standard library do: no reader of
  the bytes can return both.
\<close>

lemma RequestLine_bytes_ambiguous:
  assumes "urlparse uri0 = Inr uri" and "parse_qs (query uri) = Inr q"
    and "urlencode q = Inr qs" and "g = geturl (replace_query uri qs)"
  shows "\<exists>r1 r2. RequestLine_new urlparse parse_qs ''A'' uri0 (g @ '' B'') = Inr r1 \<and>
           RequestLine_new urlparse parse_qs (''A '' @ g) uri0 ''B'' = Inr r2 \<and>
           r1 \<noteq> r2 \<and>
           RequestLine_bytes urlencode geturl r1 = RequestLine_bytes urlencode geturl r2"
proof -
  let ?r1 = "(''A'', replace_query uri q, g @ '' B'')"
  let ?r2 = "(''A '' @ g, replace_query uri q, ''B'')"
  have "RequestLine_new urlparse parse_qs ''A'' uri0 (g @ '' B'') = Inr ?r1"
    and "RequestLine_new urlparse parse_qs (''A '' @ g) uri0 ''B'' = Inr ?r2"
    using assms(1,2) by (simp_all add: RequestLine_new_def bind_def)
  moreover have "?r1 \<noteq> ?r2"
    by simp
  moreover have "RequestLine_bytes urlencode geturl ?r1 = RequestLine_bytes urlencode geturl ?r2"
    using assms(3,4) by (simp add: RequestLine_bytes_def bind_def replace_query_def)
  ultimately show ?thesis
    by blast
qed

section \<open>Properties of the status line\<close>

text \<open>
  C8: a status line built from a version and a code only takes its reason from the
  table chosen by the version: the HTTP table when the version starts with \<open>HTTP\<close>, the
  ICAP table otherwise, for every code that the chosen table holds.
\<close>

theorem StatusLine_new_reason:
  "to_int py_int code0 = Inr c \<Longrightarrow>
   (if startswith ver ''HTTP'' then http_response_codes c else icap_response_codes c) = Some r \<Longrightarrow>
   StatusLine_new http_response_codes icap_response_codes py_int ver code0 []
     = Inr \<lparr>version = ver, code = c, reason = r\<rparr>"
  by (simp add: StatusLine_new_def bind_def table_getitem_def split: if_splits)

theorem StatusLine_new_reason_witness:
  "StatusLine_new [404 \<mapsto> ''Not Found''] [404 \<mapsto> ''ICAP Service not found'']
       [''404'' \<mapsto> 404] ''HTTP/1.1'' (StrCode ''404'') []
     = Inr \<lparr>version = ''HTTP/1.1'', code = 404, reason = ''Not Found''\<rparr> \<and>
   StatusLine_new [404 \<mapsto> ''Not Found''] [404 \<mapsto> ''ICAP Service not found'']
       [''404'' \<mapsto> 404] ''ICAP/1.0'' (IntCode 404) []
     = Inr \<lparr>version = ''ICAP/1.0'', code = 404, reason = ''ICAP Service not found''\<rparr>"
proof -
  let ?http = "[404 \<mapsto> ''Not Found''] :: int \<rightharpoonup> string"
  let ?icap = "[404 \<mapsto> ''ICAP Service not found''] :: int \<rightharpoonup> string"
  let ?int = "[''404'' \<mapsto> 404] :: string \<rightharpoonup> int"
  have c1: "to_int ?int (StrCode ''404'') = Inr 404"
    by (simp add: to_int_def)
  have r1: "(if startswith ''HTTP/1.1'' ''HTTP'' then ?http 404 else ?icap 404) = Some ''Not Found''"
    by simp
  have c2: "to_int ?int (IntCode 404) = Inr 404"
    by (simp add: to_int_def)
  have r2: "(if startswith ''ICAP/1.0'' ''HTTP'' then ?http 404 else ?icap 404)
      = Some ''ICAP Service not found''"
    by simp
  from StatusLine_new_reason
         [where http_response_codes = ?http and icap_response_codes = ?icap, OF c1 r1]
       StatusLine_new_reason
         [where http_response_codes = ?http and icap_response_codes = ?icap, OF c2 r2]
  show ?thesis
    by simp
qed

section \<open>Properties of the hook table\<close>

text \<open>
  C2, as stated for every callable, fails for a hook that raises outside \<open>Exception\<close>: the
  wrapper's handler is \<open>except Exception\<close>, so the \<open>SystemExit\<close> of a hook that calls
  \<open>sys.exit()\<close> leaves the invocation instead of the fallback being returned.
\<close>

theorem Hooks_getitem_counterexample:
  "register Map.empty ''is_tag'' (Some ''tag'') False exiting_hook ''is_tag''
     = Some (exiting_hook, Some ''tag'') \<and>
   Hooks_getitem (register Map.empty ''is_tag'' (Some ''tag'') False exiting_hook) ''is_tag'' [] []
     = Inl (BaseExceptionOnly ''SystemExit'')"
  by (simp add: register_def wrapped_def Hooks_call_def Hooks_getitem_def safe_callable_def
      exiting_hook_def)

text \<open>
  C2 (amended): for every registered hook name, with callable \<open>func\<close> and fallback
  \<open>dflt\<close>, and every argument list, the invocation returns what \<open>func\<close> returns, returns
  \<open>dflt\<close> when \<open>func\<close> raises an exception derived from \<open>Exception\<close>, and raises only what
  \<open>func\<close> raises outside \<open>Exception\<close>.
\<close>

theorem Hooks_getitem_registered:
  "hooks name = Some (func, dflt) \<Longrightarrow>
     Hooks_getitem hooks name args kwargs =
       (case func args kwargs of Inl (ExceptionSubclass c) \<Rightarrow> Inr dflt | r \<Rightarrow> r)"
  by (simp add: Hooks_getitem_def safe_callable_def split: sum.splits exc.splits)

theorem Hooks_getitem_registered_witness:
  "register Map.empty ''is_tag'' (Some ''tag'') False failing_hook ''is_tag''
     = Some (failing_hook, Some ''tag'') \<and>
   failing_hook [] [] = Inl (ExceptionSubclass ''ValueError'') \<and>
   Hooks_getitem (register Map.empty ''is_tag'' (Some ''tag'') False failing_hook) ''is_tag'' [] []
     = Inr (Some ''tag'')"
proof -
  have r: "register Map.empty ''is_tag'' (Some ''tag'') False failing_hook ''is_tag''
      = Some (failing_hook, Some ''tag'')"
    by (simp add: register_def wrapped_def Hooks_call_def)
  have f: "failing_hook [] [] = Inl (ExceptionSubclass ''ValueError'')"
    by (simp add: failing_hook_def)
  from Hooks_getitem_registered
         [where hooks = "register Map.empty ''is_tag'' (Some ''tag'') False failing_hook"
            and name = "''is_tag''" and args = "[]" and kwargs = "[]", OF r] r f
  show ?thesis
    by simp
qed

text \<open>
  C10: for a name that is not registered, the lookup yields a callable that returns
  \<open>None\<close> for every list of positional and keyword arguments.
\<close>

theorem Hooks_getitem_unregistered:
  "hooks name = None \<Longrightarrow> Hooks_getitem hooks name args kwargs = Inr None"
  by (simp add: Hooks_getitem_def safe_callable_def default_func_def)

theorem Hooks_getitem_unregistered_witness:
  "register Map.empty ''is_tag'' (Some ''tag'') False failing_hook ''before_handling'' = None \<and>
   Hooks_getitem (register Map.empty ''is_tag'' (Some ''tag'') False failing_hook)
     ''before_handling'' [(), ()] [(''request'', ())] = Inr None"
proof -
  have n: "register Map.empty ''is_tag'' (Some ''tag'') False failing_hook ''before_handling'' = None"
    by (simp add: register_def wrapped_def Hooks_call_def)
  from Hooks_getitem_unregistered
         [where hooks = "register Map.empty ''is_tag'' (Some ''tag'') False failing_hook"
            and name = "''before_handling''", OF n] n
  show ?thesis
    by simp
qed

text \<open>
  What one registration does to the fallback stored under a name, and what a run of
  registrations without override under that name does.
\<close>

lemma fallback_register:
  "fallback (register hooks n d ov f) name =
     (if n = name then (if hooks name \<noteq> None \<and> \<not> ov then fallback hooks name else Some d)
      else fallback hooks name)"
  by (auto simp add: fallback_def register_def wrapped_def Hooks_call_def split: option.splits)

lemma fallback_register_all:
  "fallback hooks name = Some d0 \<Longrightarrow>
   \<forall>r \<in> set regs. reg_name r = name \<longrightarrow> \<not> reg_override r \<Longrightarrow>
   fallback (register_all hooks regs) name = Some d0"
proof (induction regs arbitrary: hooks)
  case Nil
  then show ?case by simp
next
  case (Cons r regs)
  from Cons.prems(1) have "hooks name \<noteq> None"
    by (auto simp add: fallback_def)
  with Cons.prems have
    "fallback (register hooks (reg_name r) (reg_default r) (reg_override r) (reg_func r)) name
       = Some d0"
    by (simp add: fallback_register)
  with Cons.IH Cons.prems(2) show ?case by simp
qed

text \<open>
  In the usual use, where each decorator is applied before \<open>hooks\<close> is called again, the
  first registration under a name stores the fallback it is given; any run of later
  registrations that pass no override under that name leaves the stored fallback as it
  is, whatever is registered under other names in between; a registration with override
  stores its own fallback.
\<close>

lemma fallback_preserved:
  "(hooks name = None \<longrightarrow> fallback (register hooks name d ov f) name = Some d) \<and>
   (fallback hooks name = Some d0 \<and> (\<forall>r \<in> set regs. reg_name r = name \<longrightarrow> \<not> reg_override r)
      \<longrightarrow> fallback (register_all hooks regs) name = Some d0) \<and>
   fallback (register hooks name d True f) name = Some d"
  by (simp add: fallback_register fallback_register_all)

lemma fallback_preserved_example:
  "fallback (register Map.empty ''is_tag'' (Some ''v1'') False failing_hook) ''is_tag''
     = Some (Some ''v1'') \<and>
   fallback (register_all (register Map.empty ''is_tag'' (Some ''v1'') False failing_hook)
       [\<lparr>reg_name = ''is_tag'', reg_default = Some ''v2'', reg_override = False,
          reg_func = exiting_hook\<rparr>,
        \<lparr>reg_name = ''options_headers'', reg_default = None, reg_override = True,
          reg_func = failing_hook\<rparr>,
        \<lparr>reg_name = ''is_tag'', reg_default = None, reg_override = False,
          reg_func = failing_hook\<rparr>]) ''is_tag''
     = Some (Some ''v1'') \<and>
   fallback (register (register Map.empty ''is_tag'' (Some ''v1'') False failing_hook)
       ''is_tag'' (Some ''v3'') True failing_hook) ''is_tag''
     = Some (Some ''v3'')"
proof -
  let ?hooks = "register Map.empty ''is_tag'' (Some ''v1'') False failing_hook"
  let ?regs = "[\<lparr>reg_name = ''is_tag'', reg_default = Some ''v2'', reg_override = False,
          reg_func = exiting_hook\<rparr>,
        \<lparr>reg_name = ''options_headers'', reg_default = None, reg_override = True,
          reg_func = failing_hook\<rparr>,
        \<lparr>reg_name = ''is_tag'', reg_default = None, reg_override = False,
          reg_func = failing_hook\<rparr>]"
  have e: "(Map.empty :: (unit, string) Hooks) ''is_tag'' = None"
    by simp
  from e fallback_preserved
         [where hooks = "Map.empty :: (unit, string) Hooks" and name = "''is_tag''"
            and d = "Some ''v1''" and ov = False and f = failing_hook]
  have first: "fallback ?hooks ''is_tag'' = Some (Some ''v1'')"
    by blast
  have no_override: "\<forall>r \<in> set ?regs. reg_name r = ''is_tag'' \<longrightarrow> \<not> reg_override r"
    by simp
  from first no_override fallback_preserved
         [where hooks = ?hooks and name = "''is_tag''" and ?d0.0 = "Some ''v1''"
            and regs = ?regs and d = "Some ''v3''" and f = failing_hook]
  show ?thesis
    by blast
qed

text \<open>
  C7: the fallback is fixed when \<open>hooks(name, default)\<close> is called and stored when the
  decorator it returns is applied.  With two decorators made for one name before either
  is applied, both calls find the name unregistered; the first application stores the
  fallback \<open>v1\<close>, and the second, which passes no override, replaces it by \<open>v2\<close>.
\<close>

theorem fallback_replaced_without_override:
  "fallback (wrapped (Hooks_call Map.empty ''is_tag'' (Some ''v1'') False) failing_hook Map.empty)
       ''is_tag''
     = Some (Some ''v1'') \<and>
   fallback
       (wrapped (Hooks_call Map.empty ''is_tag'' (Some ''v2'') False) exiting_hook
         (wrapped (Hooks_call Map.empty ''is_tag'' (Some ''v1'') False) failing_hook Map.empty))
       ''is_tag''
     = Some (Some ''v2'')"
  by (simp add: fallback_def wrapped_def Hooks_call_def)

section \<open>Properties of the server handle\<close>

text \<open>
  C9: after \<open>stop()\<close> on a running server the module-level name \<open>_server\<close> still refers
  to the server object, now closed: the assignment in \<open>stop\<close> binds the local name
  \<open>_serevr\<close>.
\<close>

theorem stop_keeps_server:
  "server_after_stop (Map.empty(''_server'' \<mapsto> ServerObject False))
     = Inr (Some (ServerObject True))"
  by (simp add: server_after_stop_def stop_def assign_def bind_def)

lemma stop_running:
  "globals ''_server'' = Some (ServerObject c) \<Longrightarrow>
     server_after_stop globals = Inr (Some (ServerObject True))"
  by (simp add: server_after_stop_def stop_def assign_def bind_def)

end
